theory Spec2Isabelle
  imports Complex_Main "HOL-Library.Word"
begin

unbundle bit_operations_syntax

section \<open>Data model of \<^verbatim>\<open>ntp-client.c\<close>\<close>

text \<open>
  The structures are declared in \<^verbatim>\<open>ntp-protocol.h\<close>; their fields are the ones
  \<^verbatim>\<open>ntp-client.c\<close> reads and writes. Unsigned 32-bit fields are \<open>32 word\<close>, the
  8-bit fields are \<open>8 word\<close> (\<open>sint\<close> reads the signed ones). A C \<^verbatim>\<open>double\<close> is
  the real number that a finite binary64 value denotes; the arithmetic on
  doubles, which rounds every result to binary64, is defined below.
\<close>

type_synonym double = real

record ntp_timestamp_t =
  seconds :: "32 word"
  fraction :: "32 word"

record ntp_packet_t =
  li_vn_mode :: "8 word"
  stratum :: "8 word"
  poll :: "8 word"
  precision :: "8 word"
  root_delay :: "32 word"
  root_dispersion :: "32 word"
  reference_id :: "32 word"
  ref_time :: ntp_timestamp_t
  orig_time :: ntp_timestamp_t
  recv_time :: ntp_timestamp_t
  xmit_time :: ntp_timestamp_t

record ntp_result_t =
  server_time :: ntp_timestamp_t
  client_time :: ntp_timestamp_t
  delay :: double
  offset :: double
  final_dispersion :: double

text \<open>What \<^verbatim>\<open>gettimeofday\<close> stores: seconds and microseconds since 1970.\<close>

record timeval =
  tv_sec :: int
  tv_usec :: int

text \<open>
  What a call does other than return: a read through a null pointer, or a write
  past the end of the destination buffer.
\<close>

datatype fault = NullDeref | BufferOverflow

text \<open>
  Return codes. Their values are the ones the doc comments of
  \<^verbatim>\<open>build_ntp_request\<close> and \<^verbatim>\<open>decode_reference_id\<close> give.
\<close>

definition RC_OK :: int where
  "RC_OK = 0"

definition RC_BAD_PACKET :: int where
  "RC_BAD_PACKET = - 1"

definition RC_BUFF_TOO_SMALL :: int where
  "RC_BUFF_TOO_SMALL = - 2"

text \<open>\<^verbatim>\<open>memset(p, 0, sizeof *p)\<close> on a timestamp and on a packet.\<close>

definition zero_timestamp :: ntp_timestamp_t where
  "zero_timestamp = \<lparr>seconds = 0, fraction = 0\<rparr>"

definition zero_packet :: ntp_packet_t where
  "zero_packet =
     \<lparr>li_vn_mode = 0, stratum = 0, poll = 0, precision = 0,
      root_delay = 0, root_dispersion = 0, reference_id = 0,
      ref_time = zero_timestamp, orig_time = zero_timestamp,
      recv_time = zero_timestamp, xmit_time = zero_timestamp\<rparr>"

section \<open>Arithmetic of \<^verbatim>\<open>double\<close>\<close>

text \<open>
  IEEE 754 binary64 in the default rounding mode: the exact result of an
  operation is rounded to the nearest value \<open>m * 2 ^ e\<close> with \<open>\<bar>m\<bar> \<le> 2 ^ 53\<close>
  and \<open>e \<ge> - 1074\<close>, a tie going to the even \<open>m\<close>. Every operation of an
  expression is rounded on its own, as on a target that evaluates
  \<^verbatim>\<open>double\<close> expressions in \<^verbatim>\<open>double\<close> and fuses no two operations
  into one. Infinities and NaN are not
  part of the model: the magnitudes that \<^verbatim>\<open>ntp-client.c\<close> computes from 32-bit
  fields stay below \<open>2 ^ 34\<close>, far from the overflow threshold \<open>2 ^ 1024\<close>, and
  it divides by non-zero constants only.
\<close>

text \<open>The number of binary digits of a positive integer.\<close>

function bit_length :: "int \<Rightarrow> int" where
  "bit_length n = (if n \<le> 0 then 0 else 1 + bit_length (n div 2))"
  by pat_completeness auto
termination
  by (relation "measure nat") auto

declare bit_length.simps [simp del]

definition pow2 :: "int \<Rightarrow> real" where
  "pow2 e = (if 0 \<le> e then 2 ^ nat e else 1 / 2 ^ nat (- e))"

text \<open>The binary exponent of a non-zero real: the \<open>k\<close> with \<open>2 ^ k \<le> \<bar>x\<bar> < 2 ^ (k + 1)\<close>.\<close>

definition ilog2 :: "real \<Rightarrow> int" where
  "ilog2 x =
     (if 1 \<le> \<bar>x\<bar> then bit_length \<lfloor>\<bar>x\<bar>\<rfloor> - 1
      else - bit_length (\<lceil>1 / \<bar>x\<bar>\<rceil> - 1))"

definition round_half_even :: "real \<Rightarrow> int" where
  "round_half_even x =
     (let f = \<lfloor>x\<rfloor>; d = x - of_int f
      in if d < 1 / 2 then f
         else if 1 / 2 < d then f + 1
         else if even f then f else f + 1)"

text \<open>Rounding a real to binary64: 53 significant bits, or the multiples of
  \<open>2 ^ - 1074\<close> in the subnormal range.\<close>

definition double_of_real :: "real \<Rightarrow> double" where
  "double_of_real x =
     (if x = 0 then 0
      else (let e = max (ilog2 x - 52) (- 1074)
            in of_int (round_half_even (x / pow2 e)) * pow2 e))"

definition double_add :: "double \<Rightarrow> double \<Rightarrow> double" where
  "double_add a b = double_of_real (a + b)"

definition double_sub :: "double \<Rightarrow> double \<Rightarrow> double" where
  "double_sub a b = double_of_real (a - b)"

definition double_div :: "double \<Rightarrow> double \<Rightarrow> double" where
  "double_div a b = double_of_real (a / b)"

text \<open>The conversion of an integer value to \<^verbatim>\<open>double\<close>.\<close>

definition double_of_int :: "int \<Rightarrow> double" where
  "double_of_int n = double_of_real (of_int n)"

section \<open>Macros of \<^verbatim>\<open>ntp-protocol.h\<close>\<close>

text \<open>Modelled from the spec: the constant \<^verbatim>\<open>NTP_EPOCH_OFFSET\<close>, the seconds from
  1900-01-01 to 1970-01-01 (``NTP epoch precedes Unix epoch by 2,208,988,800
  seconds'').\<close>

definition NTP_EPOCH_OFFSET :: int where
  "NTP_EPOCH_OFFSET = 2208988800"

text \<open>Modelled from the spec: the macro \<^verbatim>\<open>UNIX_TO_NTP_SECONDS\<close>, which adds the
  epoch offset and wraps as unsigned 32-bit arithmetic does.\<close>

definition UNIX_TO_NTP_SECONDS :: "int \<Rightarrow> 32 word" where
  "UNIX_TO_NTP_SECONDS s = word_of_int (s + NTP_EPOCH_OFFSET)"


text \<open>Modelled from the spec: the macro \<^verbatim>\<open>MICROSECONDS_TO_FRACTIONS\<close>,
  \<^verbatim>\<open>round(microseconds * 2^32 / 1_000_000)\<close>, stored in the 32-bit fraction.
  The rounding is written in integer arithmetic.\<close>

definition MICROSECONDS_TO_FRACTIONS :: "int \<Rightarrow> 32 word" where
  "MICROSECONDS_TO_FRACTIONS us = word_of_int ((us * 2 ^ 32 + 500000) div 1000000)"

text \<open>Modelled from the spec: the macro \<^verbatim>\<open>FRACTIONS_TO_MICROSECONDS\<close>,
  \<^verbatim>\<open>round(fraction * 1_000_000 / 2^32)\<close>, a whole number of microseconds.
  The rounding is written in integer arithmetic.\<close>

definition FRACTIONS_TO_MICROSECONDS :: "32 word \<Rightarrow> int" where
  "FRACTIONS_TO_MICROSECONDS f = (uint f * 1000000 + 2 ^ 31) div 2 ^ 32"

text \<open>Modelled from the spec: the macro \<^verbatim>\<open>SET_NTP_LI_VN_MODE\<close>, which packs the
  leap indicator (2 bits), the version (3 bits) and the mode (3 bits) into the
  control byte, most significant field first.\<close>

definition SET_NTP_LI_VN_MODE :: "ntp_packet_t \<Rightarrow> 8 word \<Rightarrow> 8 word \<Rightarrow> 8 word \<Rightarrow> ntp_packet_t" where
  "SET_NTP_LI_VN_MODE p li vn mode =
     p\<lparr>li_vn_mode := push_bit 6 (li AND 3) OR push_bit 3 (vn AND 7) OR (mode AND 7)\<rparr>"

text \<open>Modelled from the spec: the accessor macros \<^verbatim>\<open>GET_NTP_LI\<close>,
  \<^verbatim>\<open>GET_NTP_VN\<close> and \<^verbatim>\<open>GET_NTP_MODE\<close>, fixed shifts and masks on the control
  byte.\<close>

definition GET_NTP_LI :: "ntp_packet_t \<Rightarrow> 8 word" where
  "GET_NTP_LI p = drop_bit 6 (li_vn_mode p) AND 3"

definition GET_NTP_VN :: "ntp_packet_t \<Rightarrow> 8 word" where
  "GET_NTP_VN p = drop_bit 3 (li_vn_mode p) AND 7"

definition GET_NTP_MODE :: "ntp_packet_t \<Rightarrow> 8 word" where
  "GET_NTP_MODE p = li_vn_mode p AND 7"

text \<open>Modelled from the spec: the macro \<^verbatim>\<open>GET_NTP_Q1616_TS\<close>, which reads a
  32-bit field as signed Q16.16: the upper 16 bits are whole seconds, the lower
  16 bits count 1/65536 of a second; the result is a \<^verbatim>\<open>double\<close>.\<close>

definition GET_NTP_Q1616_TS :: "32 word \<Rightarrow> double" where
  "GET_NTP_Q1616_TS x =
     double_add (double_of_int (sint (signed_drop_bit 16 x)))
       (double_div (double_of_int (uint (x AND 0xFFFF))) 65536)"

section \<open>C strings and formatted output\<close>

text \<open>
  A \<^verbatim>\<open>char\<close> buffer is the list of its bytes. \<^verbatim>\<open>c_str\<close> reads the C string stored
  at its start: the bytes before the first NUL.
\<close>

definition NUL :: char where
  "NUL = CHR 0x00"

definition c_str :: "string \<Rightarrow> string" where
  "c_str bs = takeWhile (\<lambda>c. c \<noteq> NUL) bs"

text \<open>
  \<^verbatim>\<open>strcpy(dst, src)\<close> of the C library: the string at \<^verbatim>\<open>src\<close> and its terminator
  overwrite the start of \<^verbatim>\<open>dst\<close>; the bytes behind stay. Writing past the end of
  \<^verbatim>\<open>dst\<close> is a fault.
\<close>

definition strcpy :: "string \<Rightarrow> string \<Rightarrow> fault + string" where
  "strcpy dst src =
     (let s = c_str src @ [NUL]
      in if length dst < length s then Inl BufferOverflow
         else Inr (s @ drop (length s) dst))"

text \<open>
  \<^verbatim>\<open>snprintf(dst, n, ...)\<close> of the C library, applied to the formatted text: at most
  \<open>n - 1\<close> characters and a terminator are written, nothing when \<open>n = 0\<close>.
\<close>

definition snprintf :: "string \<Rightarrow> nat \<Rightarrow> string \<Rightarrow> fault + string" where
  "snprintf dst n txt =
     (if n = 0 then Inr dst
      else (let s = take (n - 1) txt @ [NUL]
            in if length dst < length s then Inl BufferOverflow
               else Inr (s @ drop (length s) dst)))"

text \<open>The conversions \<^verbatim>\<open>%u\<close>, \<^verbatim>\<open>%d\<close> and the zero-padded \<^verbatim>\<open>%0wd\<close>.\<close>

definition digit :: "nat \<Rightarrow> char" where
  "digit d = char_of (48 + d)"

fun fmt_u :: "nat \<Rightarrow> string" where
  "fmt_u n = (if n < 10 then [digit n] else fmt_u (n div 10) @ [digit (n mod 10)])"

declare fmt_u.simps [simp del]




section \<open>Group 1: time conversion\<close>

text \<open>
  \<^verbatim>\<open>get_current_ntp_time\<close>: the argument is what \<^verbatim>\<open>gettimeofday\<close> stored, the
  result is the timestamp written through the (non-null) pointer.
\<close>

definition get_current_ntp_time :: "timeval \<Rightarrow> ntp_timestamp_t" where
  "get_current_ntp_time tv =
     zero_timestamp\<lparr>seconds := UNIX_TO_NTP_SECONDS (tv_sec tv),
                    fraction := MICROSECONDS_TO_FRACTIONS (tv_usec tv)\<rparr>"


text \<open>
  \<^verbatim>\<open>ntp_time_to_double\<close>:
  \<^verbatim>\<open>timestamp->seconds + FRACTIONS_TO_MICROSECONDS(timestamp->fraction)/(double)pow(10,6)\<close>.
  Both integer operands are converted to \<^verbatim>\<open>double\<close>; \<^verbatim>\<open>pow(10,6)\<close> is the
  double \<open>1000000\<close>. The quotient is rounded, then the sum.
\<close>

definition ntp_time_to_double :: "ntp_timestamp_t \<Rightarrow> double" where
  "ntp_time_to_double ts =
     double_add (double_of_int (uint (seconds ts)))
       (double_div (double_of_int (FRACTIONS_TO_MICROSECONDS (fraction ts))) (10 ^ 6))"

section \<open>Group 2: byte order\<close>

text \<open>
  \<^verbatim>\<open>htonl\<close> and \<^verbatim>\<open>ntohl\<close> of the C library: the identity on a big-endian host,
  the reversal of the four bytes on a little-endian one. The flag says whether
  the host is big-endian.
\<close>

definition bswap32 :: "32 word \<Rightarrow> 32 word" where
  "bswap32 w =
     drop_bit 24 (w AND 0xFF000000) OR drop_bit 8 (w AND 0x00FF0000)
       OR push_bit 8 (w AND 0x0000FF00) OR push_bit 24 (w AND 0x000000FF)"

definition htonl :: "bool \<Rightarrow> 32 word \<Rightarrow> 32 word" where
  "htonl big_endian w = (if big_endian then w else bswap32 w)"

definition ntohl :: "bool \<Rightarrow> 32 word \<Rightarrow> 32 word" where
  "ntohl big_endian w = (if big_endian then w else bswap32 w)"

definition ntp_ts_to_net :: "bool \<Rightarrow> ntp_timestamp_t \<Rightarrow> ntp_timestamp_t" where
  "ntp_ts_to_net be ts =
     (let ts = ts\<lparr>seconds := htonl be (seconds ts)\<rparr>;
          ts = ts\<lparr>fraction := htonl be (fraction ts)\<rparr>
      in ts)"

definition ntp_ts_to_host :: "bool \<Rightarrow> ntp_timestamp_t \<Rightarrow> ntp_timestamp_t" where
  "ntp_ts_to_host be ts =
     (let ts = ts\<lparr>seconds := ntohl be (seconds ts)\<rparr>;
          ts = ts\<lparr>fraction := ntohl be (fraction ts)\<rparr>
      in ts)"

definition ntp_to_net :: "bool \<Rightarrow> ntp_packet_t \<Rightarrow> ntp_packet_t" where
  "ntp_to_net be packet =
     (let p = packet\<lparr>root_delay := htonl be (root_delay packet)\<rparr>;
          p = p\<lparr>root_dispersion := htonl be (root_dispersion p)\<rparr>;
          p = p\<lparr>reference_id := htonl be (reference_id p)\<rparr>;
          p = p\<lparr>orig_time := ntp_ts_to_net be (orig_time p)\<rparr>;
          p = p\<lparr>recv_time := ntp_ts_to_net be (recv_time p)\<rparr>;
          p = p\<lparr>ref_time := ntp_ts_to_net be (ref_time p)\<rparr>;
          p = p\<lparr>xmit_time := ntp_ts_to_net be (xmit_time p)\<rparr>
      in p)"

definition ntp_to_host :: "bool \<Rightarrow> ntp_packet_t \<Rightarrow> ntp_packet_t" where
  "ntp_to_host be packet =
     (let p = packet\<lparr>root_delay := ntohl be (root_delay packet)\<rparr>;
          p = p\<lparr>root_dispersion := ntohl be (root_dispersion p)\<rparr>;
          p = p\<lparr>reference_id := ntohl be (reference_id p)\<rparr>;
          p = p\<lparr>orig_time := ntp_ts_to_host be (orig_time p)\<rparr>;
          p = p\<lparr>recv_time := ntp_ts_to_host be (recv_time p)\<rparr>;
          p = p\<lparr>ref_time := ntp_ts_to_host be (ref_time p)\<rparr>;
          p = p\<lparr>xmit_time := ntp_ts_to_host be (xmit_time p)\<rparr>
      in p)"

section \<open>Group 3: packet construction\<close>

text \<open>
  \<^verbatim>\<open>build_ntp_request\<close>: the packet pointer is \<open>None\<close> when null, else the
  packet it points to; the result is the return code and the packet afterwards.
  The first argument is the clock reading \<^verbatim>\<open>get_current_ntp_time\<close> makes.
\<close>

definition build_ntp_request :: "timeval \<Rightarrow> ntp_packet_t option \<Rightarrow> int \<times> ntp_packet_t option" where
  "build_ntp_request tv packet =
     (case packet of
        None \<Rightarrow> (RC_BAD_PACKET, None)
      | Some _ \<Rightarrow>
          (let p = zero_packet;
               p = SET_NTP_LI_VN_MODE p 3 4 3;
               p = p\<lparr>poll := 6\<rparr>;
               p = p\<lparr>precision := - 20\<rparr>;
               p = p\<lparr>xmit_time := get_current_ntp_time tv\<rparr>
           in (RC_OK, Some p)))"

section \<open>Group 4: reference identifier\<close>

text \<open>
  \<^verbatim>\<open>decode_reference_id\<close>: \<open>buff\<close> is the memory behind the pointer, \<open>buff_sz\<close>
  the size the caller states. The result is the return code and the buffer
  afterwards. The five bytes of \<^verbatim>\<open>dat\<close> are taken to be allocated.
\<close>

definition decode_reference_id ::
  "8 word \<Rightarrow> 32 word \<Rightarrow> string \<Rightarrow> int \<Rightarrow> fault + (int \<times> string)" where
  "decode_reference_id strat ref_id buff buff_sz =
     (if (if 2 \<le> strat then buff_sz < 16 else buff_sz < 5)
      then Inr (RC_BUFF_TOO_SMALL, buff)
      else
        (let dat = [char_of (unat (drop_bit (3 * 8) (push_bit (3 * 8) ref_id))),
                    char_of (unat (drop_bit (3 * 8) (push_bit (2 * 8) ref_id))),
                    char_of (unat (drop_bit (3 * 8) (push_bit (1 * 8) ref_id))),
                    char_of (unat (drop_bit (3 * 8) ref_id)),
                    NUL];
             written =
               (if 2 \<le> strat
                then snprintf buff (nat buff_sz)
                       (fmt_u (of_char (dat ! 3)) @ ''.'' @ fmt_u (of_char (dat ! 2)) @ ''.''
                          @ fmt_u (of_char (dat ! 1)) @ ''.'' @ fmt_u (of_char (dat ! 0)))
                else if ref_id = 0 then strcpy buff ''NONE''
                else strcpy buff dat)
         in case written of
              Inl f \<Rightarrow> Inl f
            | Inr buff' \<Rightarrow> Inr (RC_OK, buff')))"

section \<open>Group 4: offset and delay\<close>

text \<open>
  \<^verbatim>\<open>calculate_ntp_offset\<close>: each pointer is \<open>None\<close> when null. The result is
  the return code and the result structure afterwards, or the fault of reading
  \<^verbatim>\<open>recv_time\<close>, which the function does not test, through a null pointer.
  The four objects are taken not to overlap. The source's \<^verbatim>\<open>-\<close>, \<^verbatim>\<open>+\<close> and
  \<^verbatim>\<open>/\<close> on doubles are the rounding operations, in the source's order.
\<close>

definition calculate_ntp_offset ::
  "ntp_packet_t option \<Rightarrow> ntp_packet_t option \<Rightarrow> ntp_timestamp_t option \<Rightarrow>
   ntp_result_t option \<Rightarrow> fault + (int \<times> ntp_result_t option)" where
  "calculate_ntp_offset request response recv_time_ptr result =
     (case (request, response, result) of
        (Some _, Some rsp, Some res) \<Rightarrow>
          (case recv_time_ptr of
             None \<Rightarrow> Inl NullDeref
           | Some T4 \<Rightarrow>
               (let T1 = orig_time rsp;
                    T2 = recv_time rsp;
                    T3 = xmit_time rsp;
                    t1 = ntp_time_to_double T1;
                    t2 = ntp_time_to_double T2;
                    t3 = ntp_time_to_double T3;
                    t4 = ntp_time_to_double T4;
                    res = res\<lparr>server_time := zero_timestamp\<rparr>;
                    res = res\<lparr>client_time := zero_timestamp\<rparr>;
                    res = res\<lparr>delay := double_sub (double_sub t4 t1) (double_sub t3 t2)\<rparr>;
                    res = res\<lparr>offset :=
                            double_div (double_sub (double_sub t2 t1) (double_sub t3 t4)) 2\<rparr>;
                    res = res\<lparr>final_dispersion :=
                            double_add
                              (double_add (GET_NTP_Q1616_TS (root_dispersion rsp))
                                 (double_div (GET_NTP_Q1616_TS (root_delay rsp)) 2))
                              (double_div (delay res) 2)\<rparr>;
                    res = res\<lparr>client_time := T4\<rparr>;
                    res = res\<lparr>server_time := T3\<rparr>
                in Inr (0, Some res)))
      | _ \<Rightarrow> Inr (- 1, result))"

section \<open>The modelled macros agree with the formulas of the specification\<close>

lemma FRACTIONS_TO_MICROSECONDS_round:
  "FRACTIONS_TO_MICROSECONDS f = round (real_of_int (uint f) * 1000000 / 2 ^ 32)"
proof -
  have "real_of_int (uint f) * 1000000 / 2 ^ 32 + 1 / 2
        = real_of_int (uint f * 1000000 + 2 ^ 31) / real_of_int (2 ^ 32)"
    by (simp add: field_simps)
  then show ?thesis
    unfolding FRACTIONS_TO_MICROSECONDS_def round_def
    by (simp only: floor_divide_of_int_eq)
qed

lemma MICROSECONDS_TO_FRACTIONS_round:
  "MICROSECONDS_TO_FRACTIONS us = word_of_int (round (real_of_int us * 2 ^ 32 / 1000000))"
proof -
  have "real_of_int us * 2 ^ 32 / 1000000 + 1 / 2
        = real_of_int (us * 2 ^ 32 + 500000) / real_of_int 1000000"
    by (simp add: field_simps)
  then show ?thesis
    unfolding MICROSECONDS_TO_FRACTIONS_def round_def
    by (simp only: floor_divide_of_int_eq)
qed

section \<open>Rounding to binary64\<close>

text \<open>The integer \<open>round_half_even\<close> chooses is within one half of its argument.\<close>

lemma round_half_even_error: "\<bar>of_int (round_half_even x) - x\<bar> \<le> 1 / 2"
proof -
  have "of_int \<lfloor>x\<rfloor> \<le> x" "x < of_int \<lfloor>x\<rfloor> + 1"
    by linarith+
  then show ?thesis
    by (auto simp add: round_half_even_def Let_def)
qed

lemma pow2_pos: "0 < pow2 e"
  by (simp add: pow2_def)

text \<open>A rounded value is a multiple of the quantum \<open>2 ^ e\<close>, at most half a
  quantum from the exact one.\<close>

lemma double_of_real_error:
  "\<bar>double_of_real x - x\<bar> \<le> pow2 (max (ilog2 x - 52) (- 1074)) / 2"
proof (cases "x = 0")
  case True
  then show ?thesis using pow2_pos [of "max (ilog2 x - 52) (- 1074)"]
    by (simp add: double_of_real_def)
next
  case False
  define q where "q = pow2 (max (ilog2 x - 52) (- 1074))"
  have q: "0 < q" by (simp add: q_def pow2_pos)
  have "double_of_real x - x = (of_int (round_half_even (x / q)) - x / q) * q"
    using False q by (simp add: double_of_real_def Let_def q_def field_simps)
  then have "\<bar>double_of_real x - x\<bar> = \<bar>of_int (round_half_even (x / q)) - x / q\<bar> * q"
    using q by (simp add: abs_mult)
  also have "\<dots> \<le> 1 / 2 * q"
    using round_half_even_error [of "x / q"] q by (intro mult_right_mono) simp_all
  finally show ?thesis by (simp add: q_def)
qed

text \<open>\<open>bit_length\<close> counts the binary digits: \<open>2 ^ (k - 1) \<le> n < 2 ^ k\<close>.\<close>

lemma bit_length_bounds:
  "0 < n \<Longrightarrow> 2 ^ nat (bit_length n - 1) \<le> n \<and> n < 2 ^ nat (bit_length n) \<and> 1 \<le> bit_length n"
proof (induction n rule: bit_length.induct)
  case (1 n)
  show ?case
  proof (cases "n = 1")
    case True
    then show ?thesis
      by (simp add: bit_length.simps [of 1] bit_length.simps [of 0])
  next
    case False
    with "1.prems" have h: "0 < n div 2" "\<not> n \<le> 0" by simp_all
    from "1.IH" [OF h(2) h(1)] have ih:
      "2 ^ nat (bit_length (n div 2) - 1) \<le> n div 2" "n div 2 < 2 ^ nat (bit_length (n div 2))"
      "1 \<le> bit_length (n div 2)" by simp_all
    have bl: "bit_length n = 1 + bit_length (n div 2)"
      using h(2) by (simp add: bit_length.simps [of n])
    have "nat (bit_length (n div 2)) = Suc (nat (bit_length (n div 2) - 1))"
      using ih(3) by simp
    then have p: "(2 :: int) ^ nat (bit_length (n div 2)) = 2 * 2 ^ nat (bit_length (n div 2) - 1)"
      by (simp only: power_Suc)
    have "(2 :: int) ^ nat (bit_length n - 1) \<le> n"
      using ih(1) p bl by simp linarith
    moreover have "n < 2 ^ nat (bit_length n)"
    proof -
      have "n < 2 * (n div 2 + 1)" by presburger
      also have "\<dots> \<le> 2 * 2 ^ nat (bit_length (n div 2))" using ih(2) by simp
      also have "\<dots> = 2 ^ nat (bit_length n)" using bl ih(3) by (simp add: nat_add_distrib)
      finally show ?thesis .
    qed
    moreover have "1 \<le> bit_length n" using bl ih(3) by simp
    ultimately show ?thesis by simp
  qed
qed

lemma pow2_bit_length:
  assumes "0 < n"
  shows "(2 :: real) ^ nat (bit_length n) = 2 * 2 ^ nat (bit_length n - 1)"
proof -
  have "1 \<le> bit_length n"
    using bit_length_bounds [OF assms] by simp
  then have "nat (bit_length n) = Suc (nat (bit_length n - 1))"
    by simp
  then show ?thesis by (simp only: power_Suc)
qed

lemma ilog2_bounds_ge1:
  assumes "1 \<le> \<bar>x\<bar>"
  shows "pow2 (ilog2 x) \<le> \<bar>x\<bar> \<and> \<bar>x\<bar> < 2 * pow2 (ilog2 x)"
proof -
  define n where "n = \<lfloor>\<bar>x\<bar>\<rfloor>"
  have n: "0 < n" using assms by (simp add: n_def)
  note b = bit_length_bounds [OF n]
  have k: "ilog2 x = bit_length n - 1" using assms by (simp add: ilog2_def n_def)
  have p: "pow2 (ilog2 x) = 2 ^ nat (bit_length n - 1)" using b k by (simp add: pow2_def)
  have "real_of_int (2 ^ nat (bit_length n - 1)) \<le> real_of_int n"
    using b by (simp only: of_int_le_iff)
  also have "\<dots> \<le> \<bar>x\<bar>" by (simp add: n_def)
  finally have lo: "pow2 (ilog2 x) \<le> \<bar>x\<bar>" by (simp add: p)
  have "\<bar>x\<bar> < real_of_int (n + 1)" by (simp add: n_def)
  also have "\<dots> \<le> real_of_int (2 ^ nat (bit_length n))"
    using b by (simp only: of_int_le_iff) simp
  also have "\<dots> = 2 * pow2 (ilog2 x)"
    by (simp only: p pow2_bit_length [OF n] of_int_power of_int_numeral)
  finally show ?thesis using lo by simp
qed

lemma ilog2_bounds_less1:
  assumes "x \<noteq> 0" "\<not> 1 \<le> \<bar>x\<bar>"
  shows "pow2 (ilog2 x) \<le> \<bar>x\<bar> \<and> \<bar>x\<bar> < 2 * pow2 (ilog2 x)"
proof -
  define y where "y = 1 / \<bar>x\<bar>"
  define m where "m = \<lceil>y\<rceil> - 1"
  have x: "0 < \<bar>x\<bar>" "\<bar>x\<bar> < 1" using assms by simp_all
  then have y: "1 < y" by (simp add: y_def)
  then have m: "0 < m" by (simp add: m_def less_ceiling_iff)
  note b = bit_length_bounds [OF m]
  have k: "ilog2 x = - bit_length m" using assms by (simp add: ilog2_def m_def y_def)
  have p: "pow2 (ilog2 x) = 1 / 2 ^ nat (bit_length m)" using b k by (simp add: pow2_def)
  have my: "real_of_int m < y" "y \<le> real_of_int m + 1"
    unfolding m_def by linarith+
  have "y \<le> real_of_int (m + 1)" using my by simp
  also have "\<dots> \<le> real_of_int (2 ^ nat (bit_length m))"
    using b by (simp only: of_int_le_iff) simp
  finally have hi: "y \<le> 2 ^ nat (bit_length m)" by simp
  have "real_of_int (2 ^ nat (bit_length m - 1)) \<le> real_of_int m"
    using b by (simp only: of_int_le_iff)
  then have "(2 :: real) ^ nat (bit_length m - 1) \<le> real_of_int m"
    by (simp only: of_int_power of_int_numeral)
  then have lo: "2 ^ nat (bit_length m - 1) < y" using my(1) by linarith
  have xy: "\<bar>x\<bar> = 1 / y" using x by (simp add: y_def)
  have ypos: "0 < y" using y by simp
  have "1 / 2 ^ nat (bit_length m) \<le> 1 / y"
    using hi ypos by (intro divide_left_mono) simp_all
  then have c1: "pow2 (ilog2 x) \<le> \<bar>x\<bar>" by (simp only: p xy)
  have "1 / y < 1 / 2 ^ nat (bit_length m - 1)"
    using lo ypos by (intro divide_strict_left_mono) simp_all
  also have "\<dots> = 2 * (1 / 2 ^ nat (bit_length m))"
    by (simp add: pow2_bit_length [OF m])
  finally have c2: "\<bar>x\<bar> < 2 * pow2 (ilog2 x)" by (simp only: p xy)
  show ?thesis using c1 c2 by simp
qed

text \<open>\<open>ilog2\<close> is the binary exponent.\<close>

lemma ilog2_bounds:
  "x \<noteq> 0 \<Longrightarrow> pow2 (ilog2 x) \<le> \<bar>x\<bar> \<and> \<bar>x\<bar> < 2 * pow2 (ilog2 x)"
  using ilog2_bounds_ge1 [of x] ilog2_bounds_less1 [of x] by blast

lemma pow2_powi: "pow2 e = 2 powi e"
  by (simp add: pow2_def power_int_def inverse_eq_divide power_one_over)

lemma pow2_add: "pow2 (a + b) = pow2 a * pow2 b"
  by (simp add: pow2_powi power_int_add)

lemma pow2_less_imp_less:
  assumes "pow2 a < pow2 b"
  shows "a < b"
proof (rule ccontr)
  assume "\<not> a < b"
  then have "b \<le> a" by simp
  then have "(2 :: real) powi b \<le> 2 powi a"
    by (intro power_int_increasing) simp_all
  then show False using assms by (simp add: pow2_powi)
qed

text \<open>
  In the normal range the rounding error is at most \<open>2 ^ - 53\<close> of the exact
  value.
\<close>

lemma double_of_real_relative_error:
  assumes "pow2 (- 1022) \<le> \<bar>x\<bar>"
  shows "\<bar>double_of_real x - x\<bar> \<le> \<bar>x\<bar> / 2 ^ 53"
proof -
  have x: "x \<noteq> 0" using assms pow2_pos [of "- 1022"] by auto
  note b = ilog2_bounds [OF x]
  have one: "pow2 1 = 2" by (simp add: pow2_def)
  have m52: "pow2 (- 52) = 1 / 2 ^ 52" by (simp add: pow2_def)
  have "pow2 (ilog2 x + 1) = 2 * pow2 (ilog2 x)" by (simp add: pow2_add one)
  then have "pow2 (- 1022) < pow2 (ilog2 x + 1)"
    using assms b by linarith
  then have "- 1022 < ilog2 x + 1" by (rule pow2_less_imp_less)
  then have e: "max (ilog2 x - 52) (- 1074) = ilog2 x + (- 52)" by simp
  have "\<bar>double_of_real x - x\<bar> \<le> pow2 (ilog2 x + (- 52)) / 2"
    using double_of_real_error [of x] by (simp only: e)
  also have "\<dots> = pow2 (ilog2 x) / 2 ^ 53"
    using pow2_add [of "ilog2 x" "- 52"] by (simp add: m52)
  also have "\<dots> \<le> \<bar>x\<bar> / 2 ^ 53"
    using b by (simp add: divide_right_mono)
  finally show ?thesis .
qed

text \<open>
  Values of the model against the binary64 values of the same decimal
  literals and of two ties.
\<close>

lemma double_of_real_examples:
  "double_of_real 0.050 = 3602879701896397 / 2 ^ 56"
  "double_of_real 0.060 = 1080863910568919 / 2 ^ 54"
  "double_of_real 0.100 = 3602879701896397 / 2 ^ 55"
  "double_of_real 0.090 = 3242591731706757 / 2 ^ 55"
  "double_of_real 0.005 = 5764607523034235 / 2 ^ 60"
  "double_of_real (1 / 3) = 6004799503160661 / 2 ^ 54"
  "double_of_real (2 ^ 53 + 1) = 2 ^ 53"
  "double_of_real (2 ^ 53 + 3) = 2 ^ 53 + 4"
  by code_simp+

section \<open>Timestamp conversion\<close>

text \<open>
  The timestamps of the worked example: their conversions are the doubles
  0.0, 0.050, 0.060 and 0.100.
\<close>

lemma example_instants:
  "ntp_time_to_double \<lparr>seconds = 0, fraction = 0\<rparr> = 0"
  "ntp_time_to_double \<lparr>seconds = 0, fraction = 214748365\<rparr> = 3602879701896397 / 2 ^ 56"
  "ntp_time_to_double \<lparr>seconds = 0, fraction = 257698038\<rparr> = 1080863910568919 / 2 ^ 54"
  "ntp_time_to_double \<lparr>seconds = 0, fraction = 429496730\<rparr> = 3602879701896397 / 2 ^ 55"
  by code_simp+

text \<open>
  At the seconds of a present-day timestamp a double has 21 binary digits
  behind the point: one and three microseconds past 3933894574 s are stored as
  \<open>3933894574 + 1 / 2 ^ 20\<close> and \<open>3933894574 + 3 / 2 ^ 20\<close>.
\<close>

lemma present_day_instants:
  "ntp_time_to_double \<lparr>seconds = 3933894574, fraction = 4295\<rparr> = 4124987436826625 / 2 ^ 20"
  "ntp_time_to_double \<lparr>seconds = 3933894574, fraction = 12885\<rparr> = 4124987436826627 / 2 ^ 20"
  by code_simp+

text \<open>A fraction below half a microsecond does not change the result.\<close>

lemma ntp_time_to_double_small_fraction:
  assumes "uint f \<le> 2147"
  shows "ntp_time_to_double \<lparr>seconds = s, fraction = f\<rparr>
         = ntp_time_to_double \<lparr>seconds = s, fraction = 0\<rparr>"
proof -
  have "0 \<le> uint f" by simp
  then have "FRACTIONS_TO_MICROSECONDS f = 0"
    using assms by (simp add: FRACTIONS_TO_MICROSECONDS_def)
  then show ?thesis
    by (simp add: ntp_time_to_double_def FRACTIONS_TO_MICROSECONDS_def)
qed

text \<open>
  C4. The claim: the conversion returns \<open>seconds + fraction / 2 ^ 32\<close>, the
  fraction divided by \<open>2 ^ 32\<close> directly. The source goes through whole
  microseconds, \<^verbatim>\<open>FRACTIONS_TO_MICROSECONDS(fraction) / pow(10,6)\<close>. For the
  timestamp with \<open>seconds = 0\<close> and \<open>fraction = 1\<close> it returns \<open>0\<close>, while
  \<open>seconds + fraction / 2 ^ 32\<close> is \<open>1 / 2 ^ 32\<close>, which is not \<open>0\<close>.
\<close>

theorem ntp_time_to_double_fraction_one:
  "ntp_time_to_double \<lparr>seconds = 0, fraction = 1\<rparr> = 0
   \<and> real_of_int (uint (0 :: 32 word)) + real_of_int (uint (1 :: 32 word)) / 2 ^ 32 \<noteq> 0"
proof
  show "ntp_time_to_double \<lparr>seconds = 0, fraction = 1\<rparr> = 0"
    by code_simp
  show "real_of_int (uint (0 :: 32 word)) + real_of_int (uint (1 :: 32 word)) / 2 ^ 32 \<noteq> 0"
    by simp
qed

section \<open>Timestamp to string\<close>











section \<open>Byte order\<close>

lemma byte_masks:
  "(0xFF000000 :: 32 word) = push_bit 24 (mask 8)"
  "(0x00FF0000 :: 32 word) = push_bit 16 (mask 8)"
  "(0x0000FF00 :: 32 word) = push_bit 8 (mask 8)"
  "(0x000000FF :: 32 word) = mask 8"
  by (simp_all add: mask_eq_exp_minus_1)

lemma bit_bswap32:
  "bit (bswap32 w) n \<longleftrightarrow>
     (if n < 8 then bit w (24 + n) else if n < 16 then bit w (8 + n)
      else if n < 24 then bit w (n - 8) else if n < 32 then bit w (n - 24) else False)"
  unfolding bswap32_def byte_masks
  by (auto simp add: bit_simps dest: bit_imp_le_length)

lemma bswap32_bswap32: "bswap32 (bswap32 w) = w"
proof (rule bit_word_eqI)
  fix n
  assume "n < LENGTH(32)"
  then have n: "n < 32" by simp
  consider "n < 8" | "8 \<le> n" "n < 16" | "16 \<le> n" "n < 24" | "24 \<le> n" "n < 32"
    using n by linarith
  then show "bit (bswap32 (bswap32 w)) n \<longleftrightarrow> bit w n"
    by cases (auto simp add: bit_bswap32)
qed

lemma bswap32_example: "bswap32 0x12345678 = 0x78563412"
  by (simp add: bswap32_def)

lemma ntohl_htonl: "ntohl be (htonl be w) = w"
  by (simp add: ntohl_def htonl_def bswap32_bswap32)

lemma ntp_ts_to_host_ntp_ts_to_net: "ntp_ts_to_host be (ntp_ts_to_net be ts) = ts"
  by (simp add: ntp_ts_to_host_def ntp_ts_to_net_def ntohl_htonl)

text \<open>
  C7. For every packet, on a big-endian and on a little-endian host,
  \<^verbatim>\<open>ntp_to_host\<close> after \<^verbatim>\<open>ntp_to_net\<close> gives the packet back, every field as it
  was, and each of the two conversions leaves the four 8-bit fields
  \<^verbatim>\<open>li_vn_mode\<close>, \<^verbatim>\<open>stratum\<close>, \<^verbatim>\<open>poll\<close> and \<^verbatim>\<open>precision\<close> unchanged.
\<close>

theorem ntp_to_host_ntp_to_net:
  "ntp_to_host be (ntp_to_net be p) = p
   \<and> li_vn_mode (ntp_to_net be p) = li_vn_mode p
   \<and> stratum (ntp_to_net be p) = stratum p
   \<and> poll (ntp_to_net be p) = poll p
   \<and> precision (ntp_to_net be p) = precision p
   \<and> li_vn_mode (ntp_to_host be p) = li_vn_mode p
   \<and> stratum (ntp_to_host be p) = stratum p
   \<and> poll (ntp_to_host be p) = poll p
   \<and> precision (ntp_to_host be p) = precision p"
  by (simp add: ntp_to_host_def ntp_to_net_def ntohl_htonl ntp_ts_to_host_ntp_ts_to_net)

section \<open>Packet construction\<close>

text \<open>
  C8. For every non-null packet pointer \<^verbatim>\<open>build_ntp_request\<close> returns
  \<^verbatim>\<open>RC_OK\<close> and leaves a packet with leap indicator 3, version 4, mode 3 (the
  control byte \<open>0xE3\<close> in the 2/3/3 layout), stratum 0, poll 6, precision -20,
  \<^verbatim>\<open>root_delay\<close>, \<^verbatim>\<open>root_dispersion\<close> and \<^verbatim>\<open>reference_id\<close> 0, the reference,
  originate and receive timestamps zero, and \<^verbatim>\<open>xmit_time\<close> the current instant
  as \<^verbatim>\<open>get_current_ntp_time\<close> converts it.
\<close>

theorem build_ntp_request_fields:
  "\<exists>q. build_ntp_request tv (Some p) = (RC_OK, Some q)
      \<and> GET_NTP_LI q = 3 \<and> GET_NTP_VN q = 4 \<and> GET_NTP_MODE q = 3
      \<and> li_vn_mode q = 0xE3
      \<and> stratum q = 0 \<and> poll q = 6 \<and> sint (precision q) = - 20
      \<and> root_delay q = 0 \<and> root_dispersion q = 0 \<and> reference_id q = 0
      \<and> ref_time q = zero_timestamp \<and> orig_time q = zero_timestamp
      \<and> recv_time q = zero_timestamp
      \<and> xmit_time q = \<lparr>seconds = UNIX_TO_NTP_SECONDS (tv_sec tv),
                        fraction = MICROSECONDS_TO_FRACTIONS (tv_usec tv)\<rparr>"
  by (simp add: build_ntp_request_def Let_def SET_NTP_LI_VN_MODE_def zero_packet_def
        GET_NTP_LI_def GET_NTP_VN_def GET_NTP_MODE_def get_current_ntp_time_def
        zero_timestamp_def)

lemma build_ntp_request_null: "build_ntp_request tv None = (RC_BAD_PACKET, None)"
  by (simp add: build_ntp_request_def)

section \<open>Reference identifier\<close>

lemma fmt_u_0: "fmt_u 0 = ''0''"
  by code_simp

text \<open>
  With a stratum below 2 and a non-zero identifier the source copies the bytes
  of \<^verbatim>\<open>dat\<close>, which it fills least significant byte first, up to the first zero
  byte.
\<close>

lemma decode_reference_id_low_stratum:
  assumes "strat < 2" "ref_id \<noteq> 0" "5 \<le> buff_sz"
  shows "decode_reference_id strat ref_id buff buff_sz =
     (case strcpy buff [char_of (unat ref_id), char_of (unat (drop_bit 8 ref_id)),
                        char_of (unat (drop_bit 16 ref_id)),
                        char_of (unat (drop_bit 24 ref_id)), NUL]
      of Inl f \<Rightarrow> Inl f | Inr b \<Rightarrow> Inr (RC_OK, b))"
proof -
  have s: "\<not> 2 \<le> strat" using assms(1) by simp
  have b: "drop_bit 24 (push_bit 24 ref_id) = take_bit 8 ref_id"
    "drop_bit 24 (push_bit 16 ref_id) = take_bit 8 (drop_bit 8 ref_id)"
    "drop_bit 24 (push_bit 8 ref_id) = take_bit 8 (drop_bit 16 ref_id)"
    by (rule bit_word_eqI; auto simp add: bit_simps dest: bit_imp_le_length)+
  have c: "char_of (unat (take_bit 8 w)) = char_of (unat w)" for w :: "32 word"
    by (simp add: unsigned_take_bit_eq) (simp add: take_bit_eq_mod)
  show ?thesis using s assms(2,3)
    by (simp add: decode_reference_id_def Let_def b c)
qed

text \<open>With a stratum below 2 the identifier 0 is written as \<^verbatim>\<open>"NONE"\<close>.\<close>

lemma decode_reference_id_zero_low_stratum:
  assumes "strat < 2" "5 \<le> buff_sz" "5 \<le> length buff"
  shows "decode_reference_id strat 0 buff buff_sz = Inr (RC_OK, ''NONE'' @ NUL # drop 5 buff)"
proof -
  have s: "\<not> 2 \<le> strat" using assms(1) by simp
  have d: "drop (Suc (Suc (Suc (Suc (Suc 0))))) buff = drop 5 buff"
    by (simp add: eval_nat_numeral)
  show ?thesis using s assms(2,3) d
    by (simp add: decode_reference_id_def strcpy_def c_str_def NUL_def Let_def)
qed

text \<open>With a stratum of 2 or more the identifier 0 is written as \<^verbatim>\<open>"0.0.0.0"\<close>.\<close>

lemma decode_reference_id_zero_high_stratum:
  assumes "2 \<le> strat" "16 \<le> buff_sz" "8 \<le> length buff"
  shows "decode_reference_id strat 0 buff buff_sz = Inr (RC_OK, ''0.0.0.0'' @ NUL # drop 8 buff)"
proof -
  have m: "min (nat buff_sz - Suc 0) 7 = 7" using assms(2) by simp
  have d: "drop (Suc (Suc (Suc (Suc (Suc (Suc (Suc (Suc 0)))))))) buff = drop 8 buff"
    by (simp add: eval_nat_numeral)
  show ?thesis using assms m d
    by (simp add: decode_reference_id_def snprintf_def Let_def fmt_u_0)
qed

lemma decode_reference_id_examples:
  "decode_reference_id 2 0xCF424F67 (replicate 16 NUL) 16
     = Inr (RC_OK, ''207.66.79.103'' @ replicate 3 NUL)"
  "decode_reference_id 1 0x474F4F47 (replicate 16 NUL) 16
     = Inr (RC_OK, ''GOOG'' @ replicate 12 NUL)"
  "decode_reference_id 1 0 (replicate 16 NUL) 16
     = Inr (RC_OK, ''NONE'' @ replicate 12 NUL)"
  "decode_reference_id 1 0x4E495354 (replicate 4 NUL) 4
     = Inr (RC_BUFF_TOO_SMALL, replicate 4 NUL)"
  by code_simp+

text \<open>
  C2. The claim: with a stratum below 2 and a non-zero identifier the four bytes
  are written most significant first, so that \<^verbatim>\<open>decode_reference_id(1, 0x4E495354)\<close>
  gives \<^verbatim>\<open>"NIST"\<close>. The source writes them least significant first: in a
  16-byte buffer the call leaves the string \<^verbatim>\<open>"TSIN"\<close>.
\<close>

theorem decode_reference_id_NIST_reversed:
  "decode_reference_id 1 0x4E495354 (replicate 16 NUL) 16
     = Inr (RC_OK, ''TSIN'' @ replicate 12 NUL)
   \<and> c_str (''TSIN'' @ replicate 12 NUL) = ''TSIN''
   \<and> ''TSIN'' \<noteq> ''NIST''"
  by code_simp

text \<open>
  C3. The claim: the identifier 0 is written as \<^verbatim>\<open>"NONE"\<close> for every stratum,
  also for a stratum of 2 or more. The source tests \<^verbatim>\<open>ref_id == 0\<close> only on the
  branch of a stratum below 2: with stratum 2 and a 16-byte buffer the call
  leaves the string \<^verbatim>\<open>"0.0.0.0"\<close>.
\<close>

theorem decode_reference_id_zero_stratum2:
  "decode_reference_id 2 0 (replicate 16 NUL) 16
     = Inr (RC_OK, ''0.0.0.0'' @ replicate 9 NUL)
   \<and> c_str (''0.0.0.0'' @ replicate 9 NUL) = ''0.0.0.0''
   \<and> ''0.0.0.0'' \<noteq> ''NONE''"
  by code_simp

section \<open>Offset and delay\<close>

text \<open>The offset the source stores: the second difference is subtracted.\<close>

lemma calculate_ntp_offset_offset_as_coded:
  "\<exists>res'. calculate_ntp_offset (Some req) (Some rsp) (Some T4) (Some res) = Inr (0, Some res')
      \<and> offset res' =
          double_div
            (double_sub
               (double_sub (ntp_time_to_double (recv_time rsp)) (ntp_time_to_double (orig_time rsp)))
               (double_sub (ntp_time_to_double (xmit_time rsp)) (ntp_time_to_double T4))) 2"
  by (simp add: calculate_ntp_offset_def Let_def)

text \<open>
  The worked example: a response whose originate, receive and transmit
  timestamps convert to the doubles 0.0, 0.050 and 0.060, a local receive
  timestamp that converts to 0.100, root delay and dispersion 0. The stored
  delay is \<open>6485183463413515 / 2 ^ 56\<close>, the double 0.09000000000000001; the
  stored offset and dispersion are its half, 0.045000000000000005.
\<close>

lemma calculate_ntp_offset_example:
  "calculate_ntp_offset (Some zero_packet)
     (Some (zero_packet\<lparr>orig_time := \<lparr>seconds = 0, fraction = 0\<rparr>,
                        recv_time := \<lparr>seconds = 0, fraction = 214748365\<rparr>,
                        xmit_time := \<lparr>seconds = 0, fraction = 257698038\<rparr>\<rparr>))
     (Some \<lparr>seconds = 0, fraction = 429496730\<rparr>)
     (Some \<lparr>server_time = zero_timestamp, client_time = zero_timestamp,
            delay = 0, offset = 0, final_dispersion = 0\<rparr>)
   = Inr (0, Some \<lparr>server_time = \<lparr>seconds = 0, fraction = 257698038\<rparr>,
                   client_time = \<lparr>seconds = 0, fraction = 429496730\<rparr>,
                   delay = 6485183463413515 / 2 ^ 56,
                   offset = 6485183463413515 / 2 ^ 57,
                   final_dispersion = 6485183463413515 / 2 ^ 57\<rparr>)"
  by code_simp

text \<open>
  Two present-day timestamps one and three microseconds past the same second
  are two microseconds apart; the stored delay is \<open>2 / 2 ^ 20\<close>, about
  1.907 microseconds.
\<close>

lemma calculate_ntp_offset_present_day:
  "calculate_ntp_offset (Some zero_packet)
     (Some (zero_packet\<lparr>orig_time := \<lparr>seconds = 3933894574, fraction = 4295\<rparr>,
                        recv_time := \<lparr>seconds = 3933894574, fraction = 0\<rparr>,
                        xmit_time := \<lparr>seconds = 3933894574, fraction = 0\<rparr>\<rparr>))
     (Some \<lparr>seconds = 3933894574, fraction = 12885\<rparr>)
     (Some \<lparr>server_time = zero_timestamp, client_time = zero_timestamp,
            delay = 0, offset = 0, final_dispersion = 0\<rparr>)
   = Inr (0, Some \<lparr>server_time = \<lparr>seconds = 3933894574, fraction = 0\<rparr>,
                   client_time = \<lparr>seconds = 3933894574, fraction = 12885\<rparr>,
                   delay = 2 / 2 ^ 20,
                   offset = 1 / 2 ^ 20,
                   final_dispersion = 1 / 2 ^ 20\<rparr>)"
  by code_simp

text \<open>
  C1. The claim: the offset is \<open>((T2 - T1) + (T3 - T4)) / 2\<close>, which is 0.005 for
  \<open>T1 = 0.0\<close>, \<open>T2 = 0.050\<close>, \<open>T3 = 0.060\<close>, \<open>T4 = 0.100\<close>. The source computes
  \<open>((T2 - T1) - (T3 - T4)) / 2\<close>: on the worked example it stores the offset
  \<open>6485183463413515 / 2 ^ 57\<close>, the double 0.045000000000000005. The formula of
  the claim, evaluated in doubles, gives \<open>720575940379279 / 2 ^ 57\<close>, the double
  0.0049999999999999975; the stored offset is more than 0.04 above it and
  above 0.005.
\<close>

theorem calculate_ntp_offset_example_offset:
  "calculate_ntp_offset (Some zero_packet)
     (Some (zero_packet\<lparr>orig_time := \<lparr>seconds = 0, fraction = 0\<rparr>,
                        recv_time := \<lparr>seconds = 0, fraction = 214748365\<rparr>,
                        xmit_time := \<lparr>seconds = 0, fraction = 257698038\<rparr>\<rparr>))
     (Some \<lparr>seconds = 0, fraction = 429496730\<rparr>)
     (Some \<lparr>server_time = zero_timestamp, client_time = zero_timestamp,
            delay = 0, offset = 0, final_dispersion = 0\<rparr>)
   = Inr (0, Some \<lparr>server_time = \<lparr>seconds = 0, fraction = 257698038\<rparr>,
                   client_time = \<lparr>seconds = 0, fraction = 429496730\<rparr>,
                   delay = 6485183463413515 / 2 ^ 56,
                   offset = 6485183463413515 / 2 ^ 57,
                   final_dispersion = 6485183463413515 / 2 ^ 57\<rparr>)
   \<and> double_div
         (double_add (double_sub (double_of_real 0.050) (double_of_real 0.0))
            (double_sub (double_of_real 0.060) (double_of_real 0.100))) 2
       = 720575940379279 / 2 ^ 57
   \<and> ((0.050 - 0.0) + (0.060 - 0.100)) / 2 = (0.005 :: real)
   \<and> (0.04 :: real) < 6485183463413515 / 2 ^ 57 - 720575940379279 / 2 ^ 57
   \<and> (0.04 :: real) < 6485183463413515 / 2 ^ 57 - 0.005"
proof (intro conjI)
  show "double_div
         (double_add (double_sub (double_of_real 0.050) (double_of_real 0.0))
            (double_sub (double_of_real 0.060) (double_of_real 0.100))) 2
       = 720575940379279 / 2 ^ 57"
    by code_simp
qed (simp_all add: calculate_ntp_offset_example)

text \<open>
  C6. The claim: the stored delay is \<open>(T4 - T1) - (T3 - T2)\<close>, equal to 0.090
  for \<open>T1 = 0.0\<close>, \<open>T2 = 0.050\<close>, \<open>T3 = 0.060\<close>, \<open>T4 = 0.100\<close>. On the worked
  example the source stores \<open>6485183463413515 / 2 ^ 56\<close>, which is not the
  double 0.090, \<open>3242591731706757 / 2 ^ 55\<close>.
\<close>

theorem calculate_ntp_offset_example_delay_not_0090:
  "calculate_ntp_offset (Some zero_packet)
     (Some (zero_packet\<lparr>orig_time := \<lparr>seconds = 0, fraction = 0\<rparr>,
                        recv_time := \<lparr>seconds = 0, fraction = 214748365\<rparr>,
                        xmit_time := \<lparr>seconds = 0, fraction = 257698038\<rparr>\<rparr>))
     (Some \<lparr>seconds = 0, fraction = 429496730\<rparr>)
     (Some \<lparr>server_time = zero_timestamp, client_time = zero_timestamp,
            delay = 0, offset = 0, final_dispersion = 0\<rparr>)
   = Inr (0, Some \<lparr>server_time = \<lparr>seconds = 0, fraction = 257698038\<rparr>,
                   client_time = \<lparr>seconds = 0, fraction = 429496730\<rparr>,
                   delay = 6485183463413515 / 2 ^ 56,
                   offset = 6485183463413515 / 2 ^ 57,
                   final_dispersion = 6485183463413515 / 2 ^ 57\<rparr>)
   \<and> double_of_real 0.090 = 3242591731706757 / 2 ^ 55
   \<and> (6485183463413515 / 2 ^ 56 :: real) \<noteq> 3242591731706757 / 2 ^ 55
   \<and> (6485183463413515 / 2 ^ 56 :: real) \<noteq> 0.090"
proof (intro conjI)
  show "double_of_real 0.090 = 3242591731706757 / 2 ^ 55"
    by code_simp
qed (simp_all add: calculate_ntp_offset_example)

text \<open>
  C6, as amended. For non-null arguments \<^verbatim>\<open>calculate_ntp_offset\<close> stores
  \<open>delay = (T4 - T1) - (T3 - T2)\<close> and
  \<open>final_dispersion = Q16.16 root_dispersion + Q16.16 root_delay / 2 + delay / 2\<close>,
  every operation rounded to \<^verbatim>\<open>double\<close>, where \<open>T1\<close>, \<open>T2\<close>, \<open>T3\<close> are the
  conversions of the response's originate, receive and transmit timestamps and
  \<open>T4\<close> that of the local receive timestamp. For the doubles 0.0, 0.050, 0.060
  and 0.100 the delay is the double 0.09000000000000001, one unit in the last
  place (\<open>1 / 2 ^ 56\<close>) above the double 0.090.
\<close>

theorem calculate_ntp_offset_delay_dispersion:
  "(\<exists>res'. calculate_ntp_offset (Some req) (Some rsp) (Some T4) (Some res) = Inr (0, Some res')
      \<and> delay res' =
          double_sub
            (double_sub (ntp_time_to_double T4) (ntp_time_to_double (orig_time rsp)))
            (double_sub (ntp_time_to_double (xmit_time rsp)) (ntp_time_to_double (recv_time rsp)))
      \<and> final_dispersion res' =
          double_add
            (double_add (GET_NTP_Q1616_TS (root_dispersion rsp))
               (double_div (GET_NTP_Q1616_TS (root_delay rsp)) 2))
            (double_div (delay res') 2))
   \<and> double_sub (double_sub (double_of_real 0.100) (double_of_real 0.0))
        (double_sub (double_of_real 0.060) (double_of_real 0.050))
      = 6485183463413515 / 2 ^ 56
   \<and> (6485183463413515 / 2 ^ 56 :: real) = double_of_real 0.090 + 1 / 2 ^ 56
   \<and> calculate_ntp_offset (Some zero_packet)
        (Some (zero_packet\<lparr>orig_time := \<lparr>seconds = 0, fraction = 0\<rparr>,
                           recv_time := \<lparr>seconds = 0, fraction = 214748365\<rparr>,
                           xmit_time := \<lparr>seconds = 0, fraction = 257698038\<rparr>\<rparr>))
        (Some \<lparr>seconds = 0, fraction = 429496730\<rparr>)
        (Some \<lparr>server_time = zero_timestamp, client_time = zero_timestamp,
               delay = 0, offset = 0, final_dispersion = 0\<rparr>)
      = Inr (0, Some \<lparr>server_time = \<lparr>seconds = 0, fraction = 257698038\<rparr>,
                      client_time = \<lparr>seconds = 0, fraction = 429496730\<rparr>,
                      delay = 6485183463413515 / 2 ^ 56,
                      offset = 6485183463413515 / 2 ^ 57,
                      final_dispersion = 6485183463413515 / 2 ^ 57\<rparr>)"
proof (intro conjI)
  show "\<exists>res'. calculate_ntp_offset (Some req) (Some rsp) (Some T4) (Some res) = Inr (0, Some res')
      \<and> delay res' =
          double_sub
            (double_sub (ntp_time_to_double T4) (ntp_time_to_double (orig_time rsp)))
            (double_sub (ntp_time_to_double (xmit_time rsp)) (ntp_time_to_double (recv_time rsp)))
      \<and> final_dispersion res' =
          double_add
            (double_add (GET_NTP_Q1616_TS (root_dispersion rsp))
               (double_div (GET_NTP_Q1616_TS (root_delay rsp)) 2))
            (double_div (delay res') 2)"
    by (simp add: calculate_ntp_offset_def Let_def)
  show "double_sub (double_sub (double_of_real 0.100) (double_of_real 0.0))
        (double_sub (double_of_real 0.060) (double_of_real 0.050))
      = 6485183463413515 / 2 ^ 56"
    by code_simp
  show "(6485183463413515 / 2 ^ 56 :: real) = double_of_real 0.090 + 1 / 2 ^ 56"
    by code_simp
qed (rule calculate_ntp_offset_example)

text \<open>
  C9. \<^verbatim>\<open>calculate_ntp_offset\<close> returns the error code -1 exactly when the
  request, the response or the result pointer is null, and then the result
  structure is as it was. For non-null arguments it returns 0 whatever the
  timestamps are.
\<close>

theorem calculate_ntp_offset_error_iff_null:
  "((calculate_ntp_offset request response recv_time_ptr result = Inr (- 1, result))
      = (request = None \<or> response = None \<or> result = None))
   \<and> ((\<exists>r. calculate_ntp_offset request response recv_time_ptr result = Inr (- 1, r))
      = (request = None \<or> response = None \<or> result = None))
   \<and> (\<exists>res'. calculate_ntp_offset (Some req) (Some rsp) (Some T4) (Some res)
               = Inr (0, Some res'))"
  by (auto simp add: calculate_ntp_offset_def Let_def split: option.splits)

theorem calculate_ntp_offset_error_iff_null_witness:
  "calculate_ntp_offset None (Some zero_packet) (Some zero_timestamp)
     (Some \<lparr>server_time = zero_timestamp, client_time = zero_timestamp,
            delay = 1, offset = 2, final_dispersion = 3\<rparr>)
   = Inr (- 1, Some \<lparr>server_time = zero_timestamp, client_time = zero_timestamp,
                     delay = 1, offset = 2, final_dispersion = 3\<rparr>)
   \<and> (\<exists>res'. calculate_ntp_offset (Some zero_packet) (Some zero_packet) (Some zero_timestamp)
               (Some \<lparr>server_time = zero_timestamp, client_time = zero_timestamp,
                      delay = 1, offset = 2, final_dispersion = 3\<rparr>)
               = Inr (0, Some res'))"
  using calculate_ntp_offset_error_iff_null
    [of None "Some zero_packet" "Some zero_timestamp"
        "Some \<lparr>server_time = zero_timestamp, client_time = zero_timestamp,
               delay = 1, offset = 2, final_dispersion = 3\<rparr>"
        zero_packet zero_packet zero_timestamp
        "\<lparr>server_time = zero_timestamp, client_time = zero_timestamp,
          delay = 1, offset = 2, final_dispersion = 3\<rparr>"]
  by simp

lemma calculate_ntp_offset_null_recv_time:
  "calculate_ntp_offset (Some req) (Some rsp) None (Some res) = Inl NullDeref"
  by (simp add: calculate_ntp_offset_def)

text \<open>
  C10. With the response, the receive timestamp and the result structure
  fixed, two calls with different non-null request packets have the same
  outcome: the same offset, delay, dispersion, server time and client time.
  The request is only tested for null; \<open>T1\<close> is the response's originate
  timestamp.
\<close>

theorem calculate_ntp_offset_request_independent:
  "calculate_ntp_offset (Some request1) response recv_time_ptr result
   = calculate_ntp_offset (Some request2) response recv_time_ptr result"
  by (simp add: calculate_ntp_offset_def)

end
